theory Spec2Isabelle
  imports Complex_Main
begin

section \<open>JavaScript values shared by the handlers\<close>

text \<open>
  A JavaScript string is a sequence of UTF-16 code units: \<open>length\<close>, \<open>slice\<close> and the
  regular expressions without the \<open>u\<close> flag all count and test code units. A string is
  modelled as the list of its code units. MIME types and other pure ASCII text are kept as
  Isabelle strings; \<open>ascii\<close> gives the code units of such a text.
\<close>

type_synonym jsstring = "nat list"

definition ascii :: "string \<Rightarrow> jsstring" where
  "ascii s = map of_char s"

text \<open>
  \<open>Number.prototype.toFixed(f)\<close> on a finite number: the sign is split off, a magnitude of
  at least \<open>10^21\<close> is printed as it is, and any other magnitude \<open>x\<close> is printed as
  \<open>n / 10^f\<close> for the integer \<open>n\<close> nearest to \<open>x * 10^f\<close>, the larger one on a tie. The
  model returns the number that the printed decimal denotes.
\<close>

definition toFixedAbs :: "nat \<Rightarrow> real \<Rightarrow> real" where
  "toFixedAbs f x = (if 10 ^ 21 \<le> x then x else of_int \<lfloor>x * 10 ^ f + 1 / 2\<rfloor> / 10 ^ f)"

definition toFixed :: "nat \<Rightarrow> real \<Rightarrow> real" where
  "toFixed f x = (if x < 0 then - toFixedAbs f (- x) else toFixedAbs f x)"

text \<open>
  A value read out of a parsed JSON body. A number carries its value. Any other value
  (a missing property, \<open>null\<close>, a boolean, a string, an array, an object) is kept only
  through the two coercions the gold-price handler applies to it: ToBoolean (\<open>!v\<close>,
  \<open>v || d\<close>) and the comparison \<open>v < 100\<close>. JSON has no NaN; a literal that overflows to
  Infinity is not modelled.
\<close>

datatype jsvalue = Number real | NonNumber bool bool

fun truthy :: "jsvalue \<Rightarrow> bool" where
  "truthy (Number x) = (x \<noteq> 0)"
| "truthy (NonNumber t b) = t"

fun below100 :: "jsvalue \<Rightarrow> bool" where
  "below100 (Number x) = (x < 100)"
| "below100 (NonNumber t b) = b"

definition undefined_value :: jsvalue where
  "undefined_value = NonNumber False False"

text \<open>
  What one \<open>fetch\<close> of a JSON endpoint comes to: the promise rejects or the body cannot be
  read (\<open>Threw\<close>), the response is not ok, or it is ok and the property the caller reads
  out of the parsed body has the given value.
\<close>

datatype 'a fetched = Threw | NotOk | Ok 'a

datatype http_method = OPTIONS | GET | POST

record 'b response =
  status :: nat
  body :: 'b

text \<open>\<open>Response.ok\<close>: the status is in the range 200 to 299.\<close>

definition ok :: "nat \<Rightarrow> bool" where
  "ok st = (200 \<le> st \<and> st \<le> 299)"

text \<open>An environment variable or a string from a request body, tested with \<open>!v\<close>.\<close>

definition falsy :: "'a list option \<Rightarrow> bool" where
  "falsy v = (case v of None \<Rightarrow> True | Some s \<Rightarrow> s = [])"


section \<open>Upload dialog: \<open>validateFile\<close>\<close>

record File =
  file_type :: string
  file_size :: nat

definition ALLOWED_TYPES :: "string list" where
  "ALLOWED_TYPES =
    [''application/pdf'', ''text/plain'', ''image/png'', ''image/jpeg'', ''image/jpg'',
     ''image/webp'',
     ''video/mp4'', ''video/quicktime'', ''video/webm'',
     ''audio/mpeg'', ''audio/wav'', ''audio/x-wav'', ''audio/mp4'', ''audio/x-m4a'']"

definition MAX_FILE_SIZE :: nat where
  "MAX_FILE_SIZE = 50 * 1024 * 1024"

definition MEDIA_TYPES :: "string list" where
  "MEDIA_TYPES =
    [''video/mp4'', ''video/quicktime'', ''video/webm'',
     ''audio/mpeg'', ''audio/wav'', ''audio/x-wav'', ''audio/mp4'', ''audio/x-m4a'']"

text \<open>
  The two messages \<open>validateFile\<close> can return. The second one interpolates the label of
  the limit and the file's size in megabytes printed with one decimal.
\<close>

datatype validation_error =
  Unsupported_file_type
| File_too_large string real

definition validateFile :: "File \<Rightarrow> validation_error option" where
  "validateFile f =
    (if file_type f \<notin> set ALLOWED_TYPES then Some Unsupported_file_type
     else
       let isMedia = (file_type f \<in> set MEDIA_TYPES);
           sizeLimit = (if isMedia then MAX_FILE_SIZE else 10 * 1024 * 1024);
           sizeLimitLabel = (if isMedia then ''50MB'' else ''10MB'')
       in if file_size f > sizeLimit
          then Some (File_too_large sizeLimitLabel
                       (toFixed 1 (real (file_size f) / (1024 * 1024))))
          else None)"


section \<open>Gold-price handler\<close>

text \<open>
  A response body is JSON with a \<open>success\<close> flag, or a stream, or nothing (the answer to a
  CORS preflight). \<open>Success\<close> carries the payload of a body sent on the normal path,
  \<open>Failure\<close> what an error body reports.
\<close>

datatype ('d, 'e) body = Empty | Success 'd | Failure 'e

fun success :: "('d, 'e) body \<Rightarrow> bool" where
  "success (Success d) = True"
| "success (Failure e) = False"
| "success Empty = False"

text \<open>
  Lines 14 to 35: \<open>goldPriceUSD\<close> starts at 0 and takes the primary provider's
  \<open>data.price\<close> when the response is ok and the price is truthy. An exception stays inside
  the inner \<open>try\<close>.
\<close>

definition primaryPrice :: "jsvalue fetched \<Rightarrow> jsvalue" where
  "primaryPrice primary =
    (case primary of
       Ok price \<Rightarrow> if truthy price then price else Number 0
     | NotOk \<Rightarrow> Number 0
     | Threw \<Rightarrow> Number 0)"

text \<open>Lines 38 to 54: the fallback provider is asked only while \<open>goldPriceUSD\<close> is falsy.\<close>

definition fallbackPrice :: "jsvalue \<Rightarrow> jsvalue fetched \<Rightarrow> jsvalue" where
  "fallbackPrice goldPrice alt =
    (if \<not> truthy goldPrice then
       (case alt of
          Ok usd \<Rightarrow> if truthy usd then usd else goldPrice
        | NotOk \<Rightarrow> goldPrice
        | Threw \<Rightarrow> goldPrice)
     else goldPrice)"

text \<open>Lines 57 to 59: the final fallback.\<close>

definition finalFallback :: "jsvalue \<Rightarrow> jsvalue" where
  "finalFallback goldPrice =
    (if \<not> truthy goldPrice \<or> below100 goldPrice then Number 2680 else goldPrice)"

definition goldPriceUSD :: "jsvalue fetched \<Rightarrow> jsvalue fetched \<Rightarrow> jsvalue" where
  "goldPriceUSD primary alt = finalFallback (fallbackPrice (primaryPrice primary) alt)"

datatype gold_error =
  Exchange_fetch_failed
| toFixed_is_not_a_function

text \<open>
  Lines 65 to 74: the exchange-rate request is not guarded by a \<open>try\<close> of its own, so an
  exception there reaches the outer \<open>catch\<close>.
\<close>

definition usdToInr :: "jsvalue fetched \<Rightarrow> gold_error + jsvalue" where
  "usdToInr exchange =
    (case exchange of
       Threw \<Rightarrow> Inl Exchange_fetch_failed
     | NotOk \<Rightarrow> Inr (Number 83.5)
     | Ok inr \<Rightarrow> Inr (if truthy inr then inr else Number 83.5))"

record purity_price =
  perGram :: real
  per10Grams :: real

record gold_data =
  pricePerOunceUSD :: real
  pricePerGramUSD :: real
  exchangeRate :: real
  price24K :: purity_price
  price22K :: purity_price
  price18K :: purity_price

text \<open>
  Lines 62 and 76 to 104, for a numeric price and rate. JavaScript numbers are IEEE
  doubles: every arithmetic result, and the literal \<open>31.1035\<close>, is rounded to a double.
  The numbers are modelled by the reals they denote and the rounding by the parameter
  \<open>fl\<close>, applied wherever the machine rounds; overflow to Infinity is not modelled. The
  fields of the result are the numbers that the strings produced by \<open>toFixed(2)\<close> denote;
  \<open>lastUpdated\<close>, the time of the call, is left out.
\<close>

definition priceTable :: "(real \<Rightarrow> real) \<Rightarrow> real \<Rightarrow> real \<Rightarrow> gold_data" where
  "priceTable fl goldPrice rate =
    (let perGramUSD = fl (goldPrice / fl (311035 / 10000));
         pricePerGramINR = fl (perGramUSD * rate);
         pricePer10GramsINR = fl (pricePerGramINR * 10);
         purity24K = 1;
         purity22K = fl (22 / 24);
         purity18K = fl (18 / 24)
     in \<lparr> pricePerOunceUSD = toFixed 2 goldPrice,
          pricePerGramUSD = toFixed 2 perGramUSD,
          exchangeRate = toFixed 2 rate,
          price24K = \<lparr> perGram = toFixed 2 (fl (pricePerGramINR * purity24K)),
                       per10Grams = toFixed 2 (fl (pricePer10GramsINR * purity24K)) \<rparr>,
          price22K = \<lparr> perGram = toFixed 2 (fl (pricePerGramINR * purity22K)),
                       per10Grams = toFixed 2 (fl (pricePer10GramsINR * purity22K)) \<rparr>,
          price18K = \<lparr> perGram = toFixed 2 (fl (pricePerGramINR * purity18K)),
                       per10Grams = toFixed 2 (fl (pricePer10GramsINR * purity18K)) \<rparr> \<rparr>)"

text \<open>
  The handler. A value that is not a number has no \<open>toFixed\<close> method, so building the
  body throws a TypeError, which the outer \<open>catch\<close> turns into a 500.
\<close>

definition gold_prices_handler ::
  "(real \<Rightarrow> real) \<Rightarrow> http_method \<Rightarrow> jsvalue fetched \<Rightarrow> jsvalue fetched \<Rightarrow> jsvalue fetched
     \<Rightarrow> (gold_data, gold_error) body response" where
  "gold_prices_handler fl method primary alt exchange =
    (if method = OPTIONS then \<lparr> status = 200, body = Empty \<rparr>
     else
       case usdToInr exchange of
         Inl e \<Rightarrow> \<lparr> status = 500, body = Failure e \<rparr>
       | Inr rate \<Rightarrow>
           (case goldPriceUSD primary alt of
              Number g \<Rightarrow>
                (case rate of
                   Number r \<Rightarrow> \<lparr> status = 200, body = Success (priceTable fl g r) \<rparr>
                 | NonNumber t b \<Rightarrow> \<lparr> status = 500, body = Failure toFixed_is_not_a_function \<rparr>)
            | NonNumber t b \<Rightarrow> \<lparr> status = 500, body = Failure toFixed_is_not_a_function \<rparr>))"


section \<open>Hybrid chat: language and intent detection\<close>

text \<open>The classes of U+0900 to U+097F, and of U+0600 to U+06FF with U+0750 to U+077F, as tests of one code unit.\<close>

definition devanagari :: "nat \<Rightarrow> bool" where
  "devanagari c = (0x0900 \<le> c \<and> c \<le> 0x097F)"

definition arabic :: "nat \<Rightarrow> bool" where
  "arabic c = ((0x0600 \<le> c \<and> c \<le> 0x06FF) \<or> (0x0750 \<le> c \<and> c \<le> 0x077F))"

text \<open>
  The Hinglish pattern is \<open>/\b(kya|hai|...|dost)\b/i\<close>. \<open>\w\<close> is \<open>[A-Za-z0-9_]\<close>; \<open>\b\<close> holds
  at a position when exactly one of the code units before and after it is a \<open>\w\<close> code
  unit (a missing neighbour counts as none). With the \<open>i\<close> flag and without the \<open>u\<close> flag
  two code units match when their canonical forms are equal: a code unit below 128 is
  upper-cased, and a code unit from 128 on is never mapped below 128, so it cannot match
  a letter of the pattern and is left as it is here.
\<close>

definition hinglishWords :: "string list" where
  "hinglishWords =
    [''kya'', ''hai'', ''hain'', ''kaise'', ''kab'', ''kitna'', ''kitne'', ''aaj'', ''kal'',
     ''mein'', ''ka'', ''ki'', ''ke'', ''ko'', ''se'', ''par'', ''aur'', ''ya'', ''nahi'',
     ''nahin'', ''bahut'', ''accha'', ''theek'', ''sab'', ''bhi'', ''yeh'', ''woh'', ''kuch'',
     ''kaisa'', ''kaisi'', ''kahan'', ''kyun'', ''abhi'', ''phir'', ''lekin'', ''magar'',
     ''toh'', ''na'', ''ji'', ''haan'', ''arre'', ''yaar'', ''bhai'', ''dost'']"

definition wordChar :: "nat \<Rightarrow> bool" where
  "wordChar c = ((48 \<le> c \<and> c \<le> 57) \<or> (65 \<le> c \<and> c \<le> 90) \<or> c = 95 \<or> (97 \<le> c \<and> c \<le> 122))"

definition wordBoundary :: "jsstring \<Rightarrow> nat \<Rightarrow> bool" where
  "wordBoundary s i =
    ((0 < i \<and> i \<le> length s \<and> wordChar (s ! (i - 1))) \<noteq> (i < length s \<and> wordChar (s ! i)))"

definition canonicalize :: "nat \<Rightarrow> nat" where
  "canonicalize c = (if 97 \<le> c \<and> c \<le> 122 then c - 32 else c)"

definition matchesAt :: "jsstring \<Rightarrow> nat \<Rightarrow> string \<Rightarrow> bool" where
  "matchesAt s i w =
    (wordBoundary s i
     \<and> map canonicalize (take (length w) (drop i s)) = map canonicalize (ascii w)
     \<and> wordBoundary s (i + length w))"

definition hinglishPatterns_test :: "jsstring \<Rightarrow> bool" where
  "hinglishPatterns_test s =
    list_ex (\<lambda>i. list_ex (matchesAt s i) hinglishWords) [0 ..< Suc (length s)]"

definition detectLanguage :: "jsstring \<Rightarrow> string" where
  "detectLanguage text =
    (if list_ex devanagari text then ''hindi''
     else if list_ex arabic text then ''urdu''
     else if hinglishPatterns_test text then ''hinglish''
     else ''english'')"

record QueryIntent =
  needsStockData :: bool
  needsGoldData :: bool
  needsNewsData :: bool
  needsPoliticsData :: bool
  needsRAG :: bool
  detectedLanguage :: string

definition detectIntent :: "jsstring \<Rightarrow> QueryIntent" where
  "detectIntent query =
    \<lparr> needsStockData = False,
      needsGoldData = False,
      needsNewsData = False,
      needsPoliticsData = False,
      needsRAG = True,
      detectedLanguage = detectLanguage query \<rparr>"


section \<open>Hybrid chat: document context\<close>

text \<open>
  A document of the request. \<open>content\<close> is \<open>None\<close> for \<open>null\<close> or a missing property (the
  upload dialog stores \<open>null\<close> for an empty content).
\<close>

record document =
  name :: jsstring
  content :: "jsstring option"

text \<open>The decimal digits of a number, as a template literal prints \<open>index + 1\<close>.\<close>

fun digits :: "nat \<Rightarrow> jsstring" where
  "digits n = (if n < 10 then [48 + n] else digits (n div 10) @ [48 + n mod 10])"

text \<open>
  The text appended for one document (line 266); code unit 34 is the double quote and
  10 the line feed.
\<close>

definition documentEntry :: "nat \<Rightarrow> jsstring \<Rightarrow> jsstring \<Rightarrow> jsstring" where
  "documentEntry index nm c =
    [10] @ ascii ''Document '' @ digits (index + 1) @ ascii '': '' @ [34] @ nm @ [34] @ [10]
    @ ascii ''Content:'' @ [10] @ take 5000 c @ [10] @ ascii ''---'' @ [10]"

text \<open>The \<open>forEach\<close> of lines 264 to 268, with the string built so far and the index.\<close>

fun forEach_documents :: "jsstring \<Rightarrow> nat \<Rightarrow> document list \<Rightarrow> jsstring" where
  "forEach_documents documentContext index [] = documentContext"
| "forEach_documents documentContext index (doc # rest) =
     forEach_documents
       (if \<not> falsy (content doc)
        then documentContext @ documentEntry index (name doc) (the (content doc))
        else documentContext)
       (index + 1) rest"

definition documentContext :: "document list option \<Rightarrow> jsstring" where
  "documentContext documents =
    (case documents of
       None \<Rightarrow> []
     | Some docs \<Rightarrow>
         if length docs > 0
         then forEach_documents
                ([10, 10] @ ascii ''--- UPLOADED DOCUMENTS ---'' @ [10]) 0 docs
         else [])"

text \<open>
  \<open>String.prototype.trim\<close> removes the white space and line terminators of ECMAScript
  from both ends.
\<close>

definition whiteSpace :: "nat \<Rightarrow> bool" where
  "whiteSpace c =
    (c \<in> {0x0009, 0x000A, 0x000B, 0x000C, 0x000D, 0x0020, 0x00A0, 0x1680,
           0x2028, 0x2029, 0x202F, 0x205F, 0x3000, 0xFEFF}
     \<or> (0x2000 \<le> c \<and> c \<le> 0x200A))"

definition trim :: "jsstring \<Rightarrow> jsstring" where
  "trim s = rev (dropWhile whiteSpace (rev (dropWhile whiteSpace s)))"

definition hasDocuments :: "document list option \<Rightarrow> bool" where
  "hasDocuments documents =
    (case documents of
       None \<Rightarrow> False
     | Some docs \<Rightarrow>
         length docs > 0
         \<and> list_ex (\<lambda>doc. \<not> falsy (content doc) \<and> length (trim (the (content doc))) > 0) docs)"

text \<open>
  The part of the system prompt chosen by \<open>hasDocuments\<close> (lines 309 to 317). Code units
  9888 and 65039 are the warning sign and its variation selector.
\<close>

definition documentsSection :: "document list option \<Rightarrow> jsstring" where
  "documentsSection documents =
    (if hasDocuments documents
     then [10] @ ascii ''--- UPLOADED DOCUMENTS (YOUR ONLY SOURCE OF TRUTH) ---'' @ [10]
          @ documentContext documents
          @ [10] @ ascii ''--- END OF DOCUMENTS ---'' @ [10]
     else [10, 9888, 65039] @ ascii '' NO DOCUMENTS UPLOADED'' @ [10]
          @ ascii ''There are no documents in the knowledge base. You must respond:'' @ [10]
          @ [34] @ ascii ''No relevant information found in the knowledge base.'' @ [34]
          @ [10])"


section \<open>Hybrid chat: the handler\<close>

text \<open>The environment of the edge functions; \<open>Deno.env.get\<close> gives \<open>None\<close> for an unset name.\<close>

record env =
  LOVABLE_API_KEY :: "string option"
  SUPABASE_URL :: "string option"
  SUPABASE_ANON_KEY :: "string option"
  SUPABASE_SERVICE_ROLE_KEY :: "string option"

record message =
  role :: jsstring
  message_content :: jsstring

text \<open>
  The parsed body of a chat request. \<open>documents\<close> and \<open>languagePreference\<close> may be missing.
  The handlers take the body as an option: \<open>None\<close> stands for a body that \<open>req.json()\<close>
  cannot parse, which throws inside the \<open>try\<close> block.
\<close>

record chat_request =
  messages :: "message list"
  documents :: "document list option"
  languagePreference :: "jsstring option"

text \<open>Lines 218 and 219: the content of the last message whose role is \<open>user\<close>, else \<open>''\<close>.\<close>

definition userQuery :: "chat_request \<Rightarrow> jsstring" where
  "userQuery r =
    (let users = filter (\<lambda>m. role m = ascii ''user'') (messages r)
     in if users = [] then [] else message_content (last users))"

definition effectiveLanguage :: "chat_request \<Rightarrow> jsstring" where
  "effectiveLanguage r =
    (let intent = detectIntent (userQuery r)
     in if \<not> falsy (languagePreference r) \<and> the (languagePreference r) \<noteq> ascii ''auto''
        then the (languagePreference r)
        else ascii (detectedLanguage intent))"

text \<open>
  What is sent to the AI gateway: the system prompt, given by the values interpolated
  into its fixed template (the effective language, from which the language instruction
  is looked up, and the documents section), and the client's messages. Every flag of
  \<open>detectIntent\<close> that would start a live-data request is \<open>False\<close>, so none is made, and
  the live-data context is not interpolated into the prompt.
\<close>

record gateway_payload =
  responseLanguage :: jsstring
  documentsPart :: jsstring
  forwarded :: "message list"

definition gatewayPayload :: "chat_request \<Rightarrow> gateway_payload" where
  "gatewayPayload r =
    \<lparr> responseLanguage = effectiveLanguage r,
      documentsPart = documentsSection (documents r),
      forwarded = messages r \<rparr>"

text \<open>
  The gateway's answer to a request: \<open>fetch\<close> rejects or the body cannot be read or
  parsed (every such exception lands in the handler's \<open>catch\<close>), or a response with a
  status and a body arrives.
\<close>

datatype 'b gateway_result = Gateway_threw | Gateway_response nat 'b

datatype chat_error =
  Chat_request_unreadable
| Chat_LOVABLE_API_KEY_is_not_configured
| Chat_gateway_threw
| Rate_limits_exceeded
| Payment_required
| AI_gateway_error

definition hybrid_chat_handler ::
  "env \<Rightarrow> http_method \<Rightarrow> chat_request option \<Rightarrow> (gateway_payload \<Rightarrow> jsstring gateway_result)
     \<Rightarrow> (jsstring, chat_error) body response" where
  "hybrid_chat_handler e method request gateway =
    (if method = OPTIONS then \<lparr> status = 200, body = Empty \<rparr>
     else
       case request of
         None \<Rightarrow> \<lparr> status = 500, body = Failure Chat_request_unreadable \<rparr>
       | Some r \<Rightarrow>
           if falsy (LOVABLE_API_KEY e)
           then \<lparr> status = 500, body = Failure Chat_LOVABLE_API_KEY_is_not_configured \<rparr>
           else
             (case gateway (gatewayPayload r) of
                Gateway_threw \<Rightarrow> \<lparr> status = 500, body = Failure Chat_gateway_threw \<rparr>
              | Gateway_response st stream \<Rightarrow>
                  if \<not> ok st then
                    (if st = 429 then \<lparr> status = 429, body = Failure Rate_limits_exceeded \<rparr>
                     else if st = 402 then \<lparr> status = 402, body = Failure Payment_required \<rparr>
                     else \<lparr> status = 500, body = Failure AI_gateway_error \<rparr>)
                  else \<lparr> status = 200, body = Success stream \<rparr>))"


section \<open>Media transcription handler\<close>

record transcribe_request =
  filePath :: jsstring
  fileType :: jsstring
  fileName :: jsstring
  userId :: jsstring

text \<open>The result \<open>{ data, error }\<close> of the storage download; the data are the file's bytes.\<close>

record download_result =
  fileData :: "nat list option"
  downloadError :: "string option"

text \<open>A row of the \<open>documents\<close> table, with the columns the handler touches.\<close>

record document_row =
  row_file_path :: jsstring
  row_user_id :: jsstring
  row_content :: "jsstring option"

datatype transcribe_error =
  Request_unreadable
| LOVABLE_API_KEY_is_not_configured
| Supabase_credentials_not_configured
| Failed_to_download_file "string option"
| Gateway_threw_error
| Transcription_failed nat
| No_transcript_generated
| Failed_to_save_transcript string

record transcribe_payload =
  mimeType :: jsstring
  media :: "nat list"

record transcription =
  transcript :: jsstring
  fullLength :: nat

text \<open>
  The update \<open>.update({ content }).eq('file_path', ...).eq('user_id', ...)\<close> when the
  database accepts it.
\<close>

definition update_content ::
  "jsstring \<Rightarrow> jsstring \<Rightarrow> jsstring \<Rightarrow> document_row list \<Rightarrow> document_row list" where
  "update_content t path uid rows =
    map (\<lambda>r. if row_file_path r = path \<and> row_user_id r = uid
              then r\<lparr> row_content := Some t \<rparr> else r) rows"

text \<open>
  Lines 46 to 50 and 95: the request to the gateway carries the file's bytes under its
  MIME type, with QuickTime sent as MP4. The prompt and the model name are fixed.
\<close>

definition transcribePayload :: "transcribe_request \<Rightarrow> download_result \<Rightarrow> transcribe_payload" where
  "transcribePayload r download =
    \<lparr> mimeType = (if fileType r = ascii ''video/quicktime'' then ascii ''video/mp4''
                   else fileType r),
      media = the (fileData download) \<rparr>"

text \<open>
  The body of the \<open>try\<close> block: \<open>Inl\<close> is a thrown error, \<open>Inr\<close> the value of the success
  response with the table after the update. The gateway's body is the completion text
  \<open>result.choices?.[0]?.message?.content\<close>, \<open>None\<close> when the chain ends in \<open>undefined\<close>;
  \<open>updateError\<close> is the error the database reports for the update, if any.
\<close>

definition transcribe ::
  "env \<Rightarrow> transcribe_request option \<Rightarrow> download_result
     \<Rightarrow> (transcribe_payload \<Rightarrow> jsstring option gateway_result) \<Rightarrow> string option
     \<Rightarrow> document_row list \<Rightarrow> transcribe_error + (transcription \<times> document_row list)" where
  "transcribe e request download gateway updateError rows =
    (case request of
       None \<Rightarrow> Inl Request_unreadable
     | Some r \<Rightarrow>
         if falsy (LOVABLE_API_KEY e) then Inl LOVABLE_API_KEY_is_not_configured
         else if falsy (SUPABASE_URL e) \<or> falsy (SUPABASE_SERVICE_ROLE_KEY e)
         then Inl Supabase_credentials_not_configured
         else if downloadError download \<noteq> None \<or> fileData download = None
         then Inl (Failed_to_download_file (downloadError download))
         else
           (case gateway (transcribePayload r download) of
              Gateway_threw \<Rightarrow> Inl Gateway_threw_error
            | Gateway_response st completion \<Rightarrow>
                if \<not> ok st then Inl (Transcription_failed st)
                else
                  let t = (if falsy completion then [] else the completion)
                  in if t = [] then Inl No_transcript_generated
                     else
                       (case updateError of
                          Some msg \<Rightarrow> Inl (Failed_to_save_transcript msg)
                        | None \<Rightarrow>
                            Inr (\<lparr> transcript =
                                     take 500 t @ (if length t > 500 then ascii ''...'' else []),
                                   fullLength = length t \<rparr>,
                                 update_content t (filePath r) (userId r) rows))))"

definition transcribe_media_handler ::
  "env \<Rightarrow> http_method \<Rightarrow> transcribe_request option \<Rightarrow> download_result
     \<Rightarrow> (transcribe_payload \<Rightarrow> jsstring option gateway_result) \<Rightarrow> string option
     \<Rightarrow> document_row list
     \<Rightarrow> (transcription, transcribe_error) body response \<times> document_row list" where
  "transcribe_media_handler e method request download gateway updateError rows =
    (if method = OPTIONS then (\<lparr> status = 200, body = Empty \<rparr>, rows)
     else
       case transcribe e request download gateway updateError rows of
         Inl err \<Rightarrow> (\<lparr> status = 500, body = Failure err \<rparr>, rows)
       | Inr (t, rows') \<Rightarrow> (\<lparr> status = 200, body = Success t \<rparr>, rows'))"


section \<open>Example inputs\<close>

text \<open>Concrete requests, collaborators and tables at which the theorems below are run.\<close>

definition env0 :: env where
  "env0 = \<lparr> LOVABLE_API_KEY = Some ''key'', SUPABASE_URL = Some ''https://project.example'',
            SUPABASE_ANON_KEY = Some ''anon'', SUPABASE_SERVICE_ROLE_KEY = Some ''service'' \<rparr>"

definition chat0 :: chat_request where
  "chat0 = \<lparr> messages = [\<lparr> role = ascii ''user'', message_content = ascii ''kya hai yeh'' \<rparr>],
             documents = None, languagePreference = None \<rparr>"

text \<open>A gateway that answers every chat request with the given status and an empty body.\<close>

definition gateway_status :: "nat \<Rightarrow> gateway_payload \<Rightarrow> jsstring gateway_result" where
  "gateway_status st p = Gateway_response st []"

definition treq0 :: transcribe_request where
  "treq0 = \<lparr> filePath = ascii ''u1/17-talk.mov'', fileType = ascii ''video/quicktime'',
             fileName = ascii ''talk.mov'', userId = ascii ''u1'' \<rparr>"

definition download0 :: download_result where
  "download0 = \<lparr> fileData = Some [0, 1, 2], downloadError = None \<rparr>"

definition rows0 :: "document_row list" where
  "rows0 = [\<lparr> row_file_path = ascii ''u1/17-talk.mov'', row_user_id = ascii ''u1'',
              row_content = Some (ascii ''[Processing: talk.mov]'') \<rparr>,
            \<lparr> row_file_path = ascii ''u2/3-notes.txt'', row_user_id = ascii ''u2'',
              row_content = Some (ascii ''notes'') \<rparr>]"

text \<open>
  A gateway that answers every transcription request with the given status and
  completion text.
\<close>

definition gateway_completion ::
  "nat \<Rightarrow> jsstring option \<Rightarrow> transcribe_payload \<Rightarrow> jsstring option gateway_result" where
  "gateway_completion st c p = Gateway_response st c"

text \<open>
  Three documents: one whose content runs past 5000 code units, the same one cut at
  5000, and one with an empty content.
\<close>

definition long_doc :: document where
  "long_doc = \<lparr> name = ascii ''a.txt'', content = Some (replicate 5000 120 @ ascii ''secret'') \<rparr>"

definition cut_doc :: document where
  "cut_doc = \<lparr> name = ascii ''a.txt'', content = Some (replicate 5000 120) \<rparr>"

definition empty_doc :: document where
  "empty_doc = \<lparr> name = ascii ''b.pdf'', content = Some [] \<rparr>"


section \<open>Properties of \<open>validateFile\<close>\<close>

lemma MEDIA_subset_ALLOWED: "t \<in> set MEDIA_TYPES \<Longrightarrow> t \<in> set ALLOWED_TYPES"
  by (auto simp: MEDIA_TYPES_def ALLOWED_TYPES_def)

lemma zip_not_allowed: "''application/zip'' \<notin> set ALLOWED_TYPES"
  by (simp add: ALLOWED_TYPES_def)

lemma mp4_media: "''video/mp4'' \<in> set MEDIA_TYPES"
  by (simp add: MEDIA_TYPES_def)

lemma non_media_types:
  "set ALLOWED_TYPES - set MEDIA_TYPES =
     {''application/pdf'', ''text/plain'', ''image/png'', ''image/jpeg'', ''image/jpg'',
      ''image/webp''}"
  by (auto simp: MEDIA_TYPES_def ALLOWED_TYPES_def)

text \<open>
  C7. \<open>validateFile\<close> returns an error for a file of MIME type \<open>application/zip\<close> whatever
  its size; for MIME type \<open>video/mp4\<close> it returns \<open>null\<close> for every size up to
  \<open>50 * 1024 * 1024\<close> bytes and an error for every larger size.
\<close>

theorem validateFile_zip_mp4:
  "(file_type f = ''application/zip'' \<longrightarrow> validateFile f \<noteq> None)
   \<and> (file_type f = ''video/mp4'' \<and> file_size f \<le> 50 * 1024 * 1024 \<longrightarrow> validateFile f = None)
   \<and> (file_type f = ''video/mp4'' \<and> file_size f > 50 * 1024 * 1024 \<longrightarrow> validateFile f \<noteq> None)"
  using zip_not_allowed mp4_media MEDIA_subset_ALLOWED [OF mp4_media]
  by (auto simp: validateFile_def MAX_FILE_SIZE_def Let_def)

theorem validateFile_zip_mp4_witness:
  "validateFile \<lparr> file_type = ''application/zip'', file_size = 1 \<rparr> \<noteq> None
   \<and> validateFile \<lparr> file_type = ''video/mp4'', file_size = 52428800 \<rparr> = None
   \<and> validateFile \<lparr> file_type = ''video/mp4'', file_size = 52428801 \<rparr> \<noteq> None"
  using validateFile_zip_mp4 [of "\<lparr> file_type = ''application/zip'', file_size = 1 \<rparr>"]
    validateFile_zip_mp4 [of "\<lparr> file_type = ''video/mp4'', file_size = 52428800 \<rparr>"]
    validateFile_zip_mp4 [of "\<lparr> file_type = ''video/mp4'', file_size = 52428801 \<rparr>"]
  by simp

text \<open>
  C10. For each allowed MIME type that is not a media type (these are PDF, plain text and
  the four image types) \<open>validateFile\<close> accepts a file exactly when its size is at most
  \<open>10 * 1024 * 1024\<close> bytes; the limit of \<open>50 * 1024 * 1024\<close> bytes is the one applied to
  the video and audio types of \<open>MEDIA_TYPES\<close>, and to no other allowed type.
\<close>

theorem validateFile_size_limits:
  "(file_type f \<in> {''application/pdf'', ''text/plain'', ''image/png'', ''image/jpeg'',
                     ''image/jpg'', ''image/webp''}
      \<longrightarrow> (validateFile f = None) = (file_size f \<le> 10 * 1024 * 1024))
   \<and> (file_type f \<in> set MEDIA_TYPES
      \<longrightarrow> (validateFile f = None) = (file_size f \<le> 50 * 1024 * 1024))
   \<and> (file_type f \<in> set ALLOWED_TYPES \<and> file_type f \<notin> set MEDIA_TYPES
      \<longrightarrow> file_type f \<in> {''application/pdf'', ''text/plain'', ''image/png'', ''image/jpeg'',
                     ''image/jpg'', ''image/webp''})"
proof -
  have small: "file_type f \<in> set ALLOWED_TYPES - set MEDIA_TYPES
      \<Longrightarrow> (validateFile f = None) = (file_size f \<le> 10 * 1024 * 1024)"
    by (auto simp: validateFile_def Let_def)
  have large: "file_type f \<in> set MEDIA_TYPES
      \<Longrightarrow> (validateFile f = None) = (file_size f \<le> 50 * 1024 * 1024)"
    using MEDIA_subset_ALLOWED [of "file_type f"]
    by (auto simp: validateFile_def Let_def MAX_FILE_SIZE_def)
  show ?thesis using small large non_media_types by blast
qed

theorem validateFile_size_limits_witness:
  "validateFile \<lparr> file_type = ''application/pdf'', file_size = 10485760 \<rparr> = None
   \<and> validateFile \<lparr> file_type = ''application/pdf'', file_size = 10485761 \<rparr> \<noteq> None
   \<and> validateFile \<lparr> file_type = ''audio/wav'', file_size = 10485761 \<rparr> = None"
  using validateFile_size_limits [of "\<lparr> file_type = ''application/pdf'', file_size = 10485760 \<rparr>"]
    validateFile_size_limits [of "\<lparr> file_type = ''application/pdf'', file_size = 10485761 \<rparr>"]
    validateFile_size_limits [of "\<lparr> file_type = ''audio/wav'', file_size = 10485761 \<rparr>"]
  by (simp add: MEDIA_TYPES_def)


section \<open>Properties of the intent and language detection\<close>

text \<open>
  C2. For every query, \<open>detectIntent\<close> returns \<open>needsStockData\<close>, \<open>needsGoldData\<close>,
  \<open>needsNewsData\<close> and \<open>needsPoliticsData\<close> all false and \<open>needsRAG\<close> true, whatever
  keywords the query contains.
\<close>

theorem detectIntent_RAG_only:
  "needsStockData (detectIntent query) = False
   \<and> needsGoldData (detectIntent query) = False
   \<and> needsNewsData (detectIntent query) = False
   \<and> needsPoliticsData (detectIntent query) = False
   \<and> needsRAG (detectIntent query) = True"
  by (simp add: detectIntent_def)

theorem detectIntent_RAG_only_witness:
  "detectIntent (ascii ''gold news'')
     = \<lparr> needsStockData = False, needsGoldData = False, needsNewsData = False,
         needsPoliticsData = False, needsRAG = True, detectedLanguage = ''english'' \<rparr>"
proof -
  have "detectLanguage (ascii ''gold news'') = ''english''"
    by code_simp
  then show ?thesis
    using detectIntent_RAG_only [of "ascii ''gold news''"]
    by (simp add: detectIntent_def)
qed

text \<open>
  C4. \<open>detectLanguage\<close> returns \<open>hindi\<close> for every string with a code unit in the
  Devanagari range (so for every non-empty string made of such code units only), \<open>urdu\<close>
  for every string without a Devanagari code unit and with one in the Arabic ranges,
  \<open>hinglish\<close> for \<open>kya hai yeh\<close> and \<open>english\<close> for \<open>what is this\<close>.
\<close>

theorem detectLanguage_cases:
  "((\<exists>c \<in> set s. devanagari c) \<longrightarrow> detectLanguage s = ''hindi'')
   \<and> (s \<noteq> [] \<and> (\<forall>c \<in> set s. devanagari c) \<longrightarrow> detectLanguage s = ''hindi'')
   \<and> ((\<forall>c \<in> set t. \<not> devanagari c) \<and> (\<exists>c \<in> set t. arabic c) \<longrightarrow> detectLanguage t = ''urdu'')
   \<and> detectLanguage (ascii ''kya hai yeh'') = ''hinglish''
   \<and> detectLanguage (ascii ''what is this'') = ''english''"
proof -
  have some_devanagari: "(\<exists>c \<in> set s. devanagari c) \<longrightarrow> detectLanguage s = ''hindi''"
    by (simp add: detectLanguage_def list_ex_iff)
  have pure_devanagari:
    "s \<noteq> [] \<and> (\<forall>c \<in> set s. devanagari c) \<longrightarrow> detectLanguage s = ''hindi''"
    by (cases s) (simp_all add: detectLanguage_def)
  have arabic_script:
    "(\<forall>c \<in> set t. \<not> devanagari c) \<and> (\<exists>c \<in> set t. arabic c) \<longrightarrow> detectLanguage t = ''urdu''"
    by (simp add: detectLanguage_def list_ex_iff)
  have roman_hindi: "detectLanguage (ascii ''kya hai yeh'') = ''hinglish''"
    by code_simp
  have plain_english: "detectLanguage (ascii ''what is this'') = ''english''"
    by code_simp
  show ?thesis
    using some_devanagari pure_devanagari arabic_script roman_hindi plain_english by blast
qed

theorem detectLanguage_cases_witness:
  "detectLanguage [0x0928, 0x092E, 0x0938, 0x094D, 0x0924, 0x0947] = ''hindi''
   \<and> detectLanguage [0x0633, 0x0644, 0x0627, 0x0645] = ''urdu''"
  using detectLanguage_cases [of "[0x0928, 0x092E, 0x0938, 0x094D, 0x0924, 0x0947]"
      "[0x0633, 0x0644, 0x0627, 0x0645]"]
  by (simp add: devanagari_def arabic_def)


section \<open>Properties of the document context\<close>

text \<open>The loop appends, to what it was given, one entry for each document with a content.\<close>

lemma forEach_documents_concat:
  "forEach_documents acc i docs =
     acc @ concat (map (\<lambda>(k, doc). if falsy (content doc) then []
                                      else documentEntry k (name doc) (the (content doc)))
                       (enumerate i docs))"
  by (induction docs arbitrary: acc i) simp_all

lemma same_prefix_falsy:
  assumes "map_option (take 5000) c = map_option (take 5000) c'"
  shows "falsy c = falsy c'"
proof (cases c)
  case None
  with assms show ?thesis by (cases c') simp_all
next
  case (Some s)
  with assms obtain s' where c': "c' = Some s'" and eq: "take 5000 s = take 5000 s'"
    by (cases c') simp_all
  have "(s = []) = (take 5000 s = [])" by simp
  also have "\<dots> = (take 5000 s' = [])" by (simp only: eq)
  also have "\<dots> = (s' = [])" by simp
  finally show ?thesis by (simp add: Some c' falsy_def)
qed

lemma same_prefix_entry:
  assumes "map_option (take 5000) c = map_option (take 5000) c'" and "\<not> falsy c"
  shows "documentEntry i nm (the c) = documentEntry i nm (the c')"
proof -
  from assms(2) obtain s where c: "c = Some s" by (cases c) (simp_all add: falsy_def)
  with assms(1) obtain s' where c': "c' = Some s'" and eq: "take 5000 s = take 5000 s'"
    by (cases c') simp_all
  show ?thesis by (simp add: c c' documentEntry_def eq)
qed

lemma forEach_documents_same_prefix:
  assumes "list_all2 (\<lambda>d d'. name d = name d'
              \<and> map_option (take 5000) (content d) = map_option (take 5000) (content d'))
            docs docs'"
  shows "forEach_documents acc i docs = forEach_documents acc i docs'"
  using assms
proof (induction docs docs' arbitrary: acc i rule: list_all2_induct)
  case Nil
  show ?case by simp
next
  case (Cons d docs d' docs')
  from Cons.hyps(1) have nm: "name d = name d'"
    and pre: "map_option (take 5000) (content d) = map_option (take 5000) (content d')"
    by simp_all
  show ?case
  proof (cases "falsy (content d)")
    case True
    then have "falsy (content d')" using same_prefix_falsy [OF pre] by simp
    with True show ?thesis using Cons.IH by simp
  next
    case False
    then have "\<not> falsy (content d')" using same_prefix_falsy [OF pre] by simp
    with False show ?thesis
      using Cons.IH same_prefix_entry [OF pre False] by (simp add: nm)
  qed
qed

text \<open>
  C8. For every document list, the document-context block is its header followed, in
  order, by one piece per document: nothing for a document whose content is empty (or
  absent), and for any other document an entry that holds the document's number and name
  and the first 5000 code units of its content. No code unit of a content past the first
  5000 reaches the block: two lists of documents with the same names and the same first
  5000 code units of content give the same block.
\<close>

theorem documentContext_first_5000:
  "documentContext (Some docs) =
     (if docs = [] then []
      else [10, 10] @ ascii ''--- UPLOADED DOCUMENTS ---'' @ [10]
           @ concat (map (\<lambda>(k, doc). if falsy (content doc) then []
                                        else documentEntry k (name doc) (the (content doc)))
                         (enumerate 0 docs)))
   \<and> documentEntry k nm c =
       [10] @ ascii ''Document '' @ digits (k + 1) @ ascii '': '' @ [34] @ nm @ [34] @ [10]
       @ ascii ''Content:'' @ [10] @ take 5000 c @ [10] @ ascii ''---'' @ [10]
   \<and> length (take 5000 c) \<le> 5000
   \<and> (list_all2 (\<lambda>d d'. name d = name d'
              \<and> map_option (take 5000) (content d) = map_option (take 5000) (content d'))
            docs docs'
       \<longrightarrow> documentContext (Some docs) = documentContext (Some docs'))"
proof -
  have block: "documentContext (Some docs) =
     (if docs = [] then []
      else [10, 10] @ ascii ''--- UPLOADED DOCUMENTS ---'' @ [10]
           @ concat (map (\<lambda>(k, doc). if falsy (content doc) then []
                                        else documentEntry k (name doc) (the (content doc)))
                         (enumerate 0 docs)))"
    by (simp add: documentContext_def forEach_documents_concat)
  have entry: "documentEntry k nm c =
       [10] @ ascii ''Document '' @ digits (k + 1) @ ascii '': '' @ [34] @ nm @ [34] @ [10]
       @ ascii ''Content:'' @ [10] @ take 5000 c @ [10] @ ascii ''---'' @ [10]"
    by (simp only: documentEntry_def)
  have bound: "length (take 5000 c) \<le> 5000"
    by simp
  have cut: "list_all2 (\<lambda>d d'. name d = name d'
              \<and> map_option (take 5000) (content d) = map_option (take 5000) (content d'))
            docs docs'
       \<longrightarrow> documentContext (Some docs) = documentContext (Some docs')"
  proof
    assume same: "list_all2 (\<lambda>d d'. name d = name d'
              \<and> map_option (take 5000) (content d) = map_option (take 5000) (content d'))
            docs docs'"
    then have "length docs = length docs'" by (rule list_all2_lengthD)
    then show "documentContext (Some docs) = documentContext (Some docs')"
      using forEach_documents_same_prefix [OF same] by (simp add: documentContext_def)
  qed
  show ?thesis using block entry bound cut by (intro conjI)
qed

theorem documentContext_first_5000_witness:
  "documentContext (Some [empty_doc, long_doc]) = documentContext (Some [empty_doc, cut_doc])
   \<and> documentContext (Some [empty_doc, cut_doc]) =
       [10, 10] @ ascii ''--- UPLOADED DOCUMENTS ---'' @ [10]
       @ [10] @ ascii ''Document 2: '' @ [34] @ ascii ''a.txt'' @ [34] @ [10]
       @ ascii ''Content:'' @ [10] @ replicate 5000 120 @ [10] @ ascii ''---'' @ [10]"
proof -
  have "documentContext (Some [empty_doc, long_doc]) = documentContext (Some [empty_doc, cut_doc])"
    using documentContext_first_5000 [of "[empty_doc, long_doc]" 0 "[]" "[]" "[empty_doc, cut_doc]",
        THEN conjunct2, THEN conjunct2, THEN conjunct2]
    by (simp add: long_doc_def cut_doc_def)
  moreover have "documentContext (Some [empty_doc, cut_doc]) =
       [10, 10] @ ascii ''--- UPLOADED DOCUMENTS ---'' @ [10]
       @ [10] @ ascii ''Document 2: '' @ [34] @ ascii ''a.txt'' @ [34] @ [10]
       @ ascii ''Content:'' @ [10] @ replicate 5000 120 @ [10] @ ascii ''---'' @ [10]"
    by (simp add: documentContext_def empty_doc_def cut_doc_def falsy_def documentEntry_def
        ascii_def)
  ultimately show ?thesis by simp
qed


section \<open>Properties of the hybrid-chat handler\<close>

text \<open>
  C5. When the request is not a preflight, the API key is configured and the AI gateway
  answers the handler's request with a status that is not ok, the handler's status is 429
  for a gateway status of 429, 402 for 402 and 500 for every other one; no other gateway
  status is passed on.
\<close>

theorem gateway_error_mapping:
  assumes "method \<noteq> OPTIONS"
    and "\<not> falsy (LOVABLE_API_KEY e)"
    and "gateway (gatewayPayload r) = Gateway_response st b"
    and "\<not> ok st"
  shows "status (hybrid_chat_handler e method (Some r) gateway)
           = (if st = 429 then 429 else if st = 402 then 402 else 500)"
  using assms by (simp add: hybrid_chat_handler_def)

theorem gateway_error_mapping_witness:
  "status (hybrid_chat_handler env0 POST (Some chat0) (gateway_status 429)) = 429
   \<and> status (hybrid_chat_handler env0 POST (Some chat0) (gateway_status 402)) = 402
   \<and> status (hybrid_chat_handler env0 POST (Some chat0) (gateway_status 503)) = 500
   \<and> status (hybrid_chat_handler env0 POST (Some chat0) (gateway_status 404)) = 500"
  using gateway_error_mapping [of POST env0 "gateway_status 429" chat0 429 "[]"]
    gateway_error_mapping [of POST env0 "gateway_status 402" chat0 402 "[]"]
    gateway_error_mapping [of POST env0 "gateway_status 503" chat0 503 "[]"]
    gateway_error_mapping [of POST env0 "gateway_status 404" chat0 404 "[]"]
  by (simp add: env0_def falsy_def ok_def gateway_status_def)


section \<open>Properties of \<open>toFixed\<close>\<close>

lemma round_below:
  fixes x :: real and n :: int
  assumes "x < of_int n"
  shows "real_of_int \<lfloor>x + 1 / 2\<rfloor> \<le> of_int n"
proof -
  have "x + 1 / 2 < of_int n + 1" using assms by simp
  then have "\<lfloor>x + 1 / 2\<rfloor> \<le> n" by (simp only: floor_le_iff)
  then show ?thesis by simp
qed

lemma toFixedAbs_nonneg: "0 \<le> x \<Longrightarrow> 0 \<le> toFixedAbs f x"
  by (simp add: toFixedAbs_def)

lemma toFixedAbs_mono:
  assumes "0 \<le> x" and "x \<le> y"
  shows "toFixedAbs f x \<le> toFixedAbs f y"
proof (cases "10 ^ 21 \<le> x")
  case True
  then have "10 ^ 21 \<le> y" using assms(2) by (rule order_trans)
  with True assms(2) show ?thesis by (simp only: toFixedAbs_def if_True)
next
  case small: False
  then have lt: "x < 10 ^ 21" by (simp only: not_le)
  have x: "toFixedAbs f x = real_of_int \<lfloor>x * 10 ^ f + 1 / 2\<rfloor> / 10 ^ f"
    using small by (simp only: toFixedAbs_def if_False)
  show ?thesis
  proof (cases "10 ^ 21 \<le> y")
    case True
    have "x * 10 ^ f < 10 ^ 21 * 10 ^ f"
      using lt by (rule mult_strict_right_mono) simp
    also have "(10 ^ 21 * 10 ^ f :: real) = of_int (10 ^ 21 * 10 ^ f)"
      by (simp only: of_int_mult of_int_power of_int_numeral)
    finally have "real_of_int \<lfloor>x * 10 ^ f + 1 / 2\<rfloor> \<le> of_int (10 ^ 21 * 10 ^ f)"
      by (rule round_below)
    also have "real_of_int (10 ^ 21 * 10 ^ f) = 10 ^ 21 * 10 ^ f"
      by (simp only: of_int_mult of_int_power of_int_numeral)
    finally have "real_of_int \<lfloor>x * 10 ^ f + 1 / 2\<rfloor> / 10 ^ f \<le> 10 ^ 21"
      by (simp only: pos_divide_le_eq zero_less_power zero_less_numeral)
    also note True
    finally have "real_of_int \<lfloor>x * 10 ^ f + 1 / 2\<rfloor> / 10 ^ f \<le> y" .
    moreover have "toFixedAbs f y = y"
      using True by (simp only: toFixedAbs_def if_True)
    ultimately show ?thesis by (simp only: x)
  next
    case False
    have y: "toFixedAbs f y = real_of_int \<lfloor>y * 10 ^ f + 1 / 2\<rfloor> / 10 ^ f"
      using False by (simp only: toFixedAbs_def if_False)
    have "x * 10 ^ f \<le> y * 10 ^ f"
      using assms(2) by (rule mult_right_mono) simp
    then have "x * 10 ^ f + 1 / 2 \<le> y * 10 ^ f + 1 / 2"
      by (simp only: add_le_cancel_right)
    then have "\<lfloor>x * 10 ^ f + 1 / 2\<rfloor> \<le> \<lfloor>y * 10 ^ f + 1 / 2\<rfloor>"
      by (rule floor_mono)
    then have "real_of_int \<lfloor>x * 10 ^ f + 1 / 2\<rfloor> \<le> real_of_int \<lfloor>y * 10 ^ f + 1 / 2\<rfloor>"
      by (simp only: of_int_le_iff)
    then show ?thesis
      unfolding x y by (rule divide_right_mono) simp
  qed
qed

text \<open>Printing with a fixed number of decimals keeps the order of two numbers.\<close>

lemma toFixed_mono:
  assumes "x \<le> y"
  shows "toFixed f x \<le> toFixed f y"
proof -
  consider "y < 0" | "x < 0" "0 \<le> y" | "0 \<le> x" using assms by linarith
  then show ?thesis
  proof cases
    case 1
    then have "x < 0" using assms by linarith
    have "toFixedAbs f (- y) \<le> toFixedAbs f (- x)"
      using 1 assms by (intro toFixedAbs_mono) simp_all
    then show ?thesis using 1 \<open>x < 0\<close> by (simp only: toFixed_def if_True neg_le_iff_le)
  next
    case 2
    have "0 \<le> toFixedAbs f (- x)" using 2 by (intro toFixedAbs_nonneg) simp
    moreover have "0 \<le> toFixedAbs f y" using 2 by (intro toFixedAbs_nonneg)
    moreover have "toFixed f x = - toFixedAbs f (- x)" using 2 by (simp only: toFixed_def if_True)
    moreover have "toFixed f y = toFixedAbs f y" using 2 by (simp add: toFixed_def)
    ultimately show ?thesis by linarith
  next
    case 3
    then have "0 \<le> y" using assms by linarith
    have "toFixedAbs f x \<le> toFixedAbs f y" using 3 assms by (rule toFixedAbs_mono)
    moreover have "toFixed f x = toFixedAbs f x" using 3 by (simp add: toFixed_def)
    moreover have "toFixed f y = toFixedAbs f y" using \<open>0 \<le> y\<close> by (simp add: toFixed_def)
    ultimately show ?thesis by simp
  qed
qed

lemma toFixed_100: "toFixed 2 100 = 100"
  by (simp add: toFixed_def toFixedAbs_def)

lemma toFixed_ge_100: "100 \<le> g \<Longrightarrow> 100 \<le> toFixed 2 g"
  using toFixed_mono [of 100 g 2] by (simp only: toFixed_100)


section \<open>Properties of the gold-price handler\<close>

text \<open>
  The price that leaves the fallback chain as a number is the constant 2680 or a number
  of at least 100 that one of the two providers returned.
\<close>

lemma goldPriceUSD_cases:
  assumes "goldPriceUSD primary alt = Number g"
  shows "g = 2680 \<or> (100 \<le> g \<and> (primary = Ok (Number g) \<or> alt = Ok (Number g)))"
  using assms
  by (auto simp: goldPriceUSD_def finalFallback_def fallbackPrice_def primaryPrice_def
      split: fetched.splits if_splits)

lemma gold_handler_Success:
  assumes "body (gold_prices_handler fl method primary alt exchange) = Success d"
  shows "\<exists>g r. goldPriceUSD primary alt = Number g \<and> d = priceTable fl g r"
  using assms
  by (auto simp: gold_prices_handler_def split: if_splits sum.splits jsvalue.splits)

lemma nonneg_fl: "mono fl \<Longrightarrow> fl 0 = 0 \<Longrightarrow> 0 \<le> x \<Longrightarrow> 0 \<le> fl (x::real)"
  by (metis monoD)

text \<open>
  C1, as amended. For every combination of outcomes of the two gold-price providers and
  of the exchange-rate request, a success response of the handler carries a
  \<open>pricePerOunceUSD\<close> figure of at least 100: the figure prints the constant 2680, or a
  number of at least 100 that the primary or the fallback provider returned. A fetched
  value that is falsy or below 100 is replaced by 2680; a value of exactly 100 is kept.
\<close>

theorem gold_price_at_least_100:
  assumes "body (gold_prices_handler fl method primary alt exchange) = Success d"
  shows "100 \<le> pricePerOunceUSD d
    \<and> (\<exists>g. goldPriceUSD primary alt = Number g \<and> pricePerOunceUSD d = toFixed 2 g
          \<and> (g = 2680 \<or> (100 \<le> g \<and> (primary = Ok (Number g) \<or> alt = Ok (Number g)))))"
proof -
  obtain g r where g: "goldPriceUSD primary alt = Number g" and d: "d = priceTable fl g r"
    using gold_handler_Success [OF assms] by blast
  have p: "pricePerOunceUSD d = toFixed 2 g"
    by (simp add: d priceTable_def Let_def)
  have c: "g = 2680 \<or> (100 \<le> g \<and> (primary = Ok (Number g) \<or> alt = Ok (Number g)))"
    using goldPriceUSD_cases [OF g] .
  then have "100 \<le> g" by auto
  then have "100 \<le> pricePerOunceUSD d" using toFixed_ge_100 p by simp
  then show ?thesis using g p c by blast
qed

text \<open>
  The primary provider throws, the fallback answers without a price and the exchange-rate
  service is not ok: the response carries 2680.
\<close>

theorem gold_price_at_least_100_witness:
  "body (gold_prices_handler id GET Threw (Ok undefined_value) NotOk)
     = Success (priceTable id 2680 83.5)
   \<and> 100 \<le> pricePerOunceUSD (priceTable id 2680 83.5)
   \<and> pricePerOunceUSD (priceTable id 2680 83.5) = 2680"
proof -
  have b: "body (gold_prices_handler id GET Threw (Ok undefined_value) NotOk)
     = Success (priceTable id 2680 83.5)"
    by (simp add: gold_prices_handler_def usdToInr_def goldPriceUSD_def finalFallback_def
      fallbackPrice_def primaryPrice_def undefined_value_def)
  have "pricePerOunceUSD (priceTable id 2680 83.5) = 2680"
    by (simp add: priceTable_def Let_def toFixed_def toFixedAbs_def)
  then show ?thesis using b gold_price_at_least_100 [OF b] by simp
qed

text \<open>
  C1, as stated, fails: when the primary provider returns a price of exactly 100, the
  test \<open>goldPriceUSD < 100\<close> is false, the price is kept, and the success response
  carries the figure 100.00, which is not strictly greater than 100.
\<close>

theorem gold_price_exactly_100:
  "body (gold_prices_handler id GET (Ok (Number 100)) Threw NotOk) = Success (priceTable id 100 83.5)
   \<and> pricePerOunceUSD (priceTable id 100 83.5) = 100
   \<and> \<not> 100 < pricePerOunceUSD (priceTable id 100 83.5)"
  by (simp add: gold_prices_handler_def usdToInr_def goldPriceUSD_def finalFallback_def
      fallbackPrice_def primaryPrice_def priceTable_def Let_def toFixed_def toFixedAbs_def)


text \<open>
  C3. For every positive gold price and every positive exchange rate, the \<open>per10Grams\<close>
  figure of 24K is at least that of 22K, which is at least that of 18K. The rounding \<open>fl\<close>
  of the machine arithmetic is only required to keep the order of its arguments and to
  leave 0 and 1 as they are, as rounding to the nearest double does.
\<close>

theorem purity_prices_ordered:
  assumes "mono fl" and "fl 0 = 0" and "fl 1 = 1" and "0 < goldPrice" and "0 < rate"
  shows "per10Grams (price22K (priceTable fl goldPrice rate))
           \<le> per10Grams (price24K (priceTable fl goldPrice rate))
       \<and> per10Grams (price18K (priceTable fl goldPrice rate))
           \<le> per10Grams (price22K (priceTable fl goldPrice rate))"
proof -
  define p10 where "p10 = fl (fl (fl (goldPrice / fl (311035 / 10000)) * rate) * 10)"
  note nn = nonneg_fl [OF assms(1) assms(2)]
  have c: "0 \<le> fl (311035 / 10000)" by (rule nn) simp
  have "0 \<le> goldPrice / fl (311035 / 10000)" using assms(4) c by simp
  then have "0 \<le> fl (goldPrice / fl (311035 / 10000))" by (rule nn)
  then have "0 \<le> fl (goldPrice / fl (311035 / 10000)) * rate" using assms(5) by simp
  then have "0 \<le> fl (fl (goldPrice / fl (311035 / 10000)) * rate)" by (rule nn)
  then have "0 \<le> fl (fl (goldPrice / fl (311035 / 10000)) * rate) * 10" by simp
  then have p10: "0 \<le> p10" unfolding p10_def by (rule nn)
  have k22: "fl (22 / 24) \<le> 1" using monoD [OF assms(1), of "22 / 24" 1] assms(3) by simp
  have k18: "fl (18 / 24) \<le> fl (22 / 24)" using monoD [OF assms(1), of "18 / 24" "22 / 24"] by simp
  have "p10 * fl (22 / 24) \<le> p10 * 1" using k22 p10 by (rule mult_left_mono)
  then have a: "fl (p10 * fl (22 / 24)) \<le> fl (p10 * 1)" by (rule monoD [OF assms(1)])
  have "p10 * fl (18 / 24) \<le> p10 * fl (22 / 24)" using k18 p10 by (rule mult_left_mono)
  then have b: "fl (p10 * fl (18 / 24)) \<le> fl (p10 * fl (22 / 24))" by (rule monoD [OF assms(1)])
  have t: "per10Grams (price24K (priceTable fl goldPrice rate)) = toFixed 2 (fl (p10 * 1))"
    "per10Grams (price22K (priceTable fl goldPrice rate)) = toFixed 2 (fl (p10 * fl (22 / 24)))"
    "per10Grams (price18K (priceTable fl goldPrice rate)) = toFixed 2 (fl (p10 * fl (18 / 24)))"
    by (simp_all only: priceTable_def Let_def p10_def gold_data.simps purity_price.simps)
  show ?thesis unfolding t using toFixed_mono [OF a, of 2] toFixed_mono [OF b, of 2] by (rule conjI)
qed

text \<open>The table for the fallback price 2680 and the default rate 83.5, in exact arithmetic.\<close>

theorem purity_prices_ordered_witness:
  "per10Grams (price18K (priceTable id 2680 83.5)) \<le> per10Grams (price22K (priceTable id 2680 83.5))
   \<and> per10Grams (price22K (priceTable id 2680 83.5)) \<le> per10Grams (price24K (priceTable id 2680 83.5))
   \<and> per10Grams (price24K (priceTable id 2680 83.5)) = 71946.89
   \<and> per10Grams (price22K (priceTable id 2680 83.5)) = 65951.31
   \<and> per10Grams (price18K (priceTable id 2680 83.5)) = 53960.17"
proof -
  have m: "mono (id :: real \<Rightarrow> real)" by (simp add: mono_def)
  have ordered: "per10Grams (price22K (priceTable id 2680 83.5))
           \<le> per10Grams (price24K (priceTable id 2680 83.5))
       \<and> per10Grams (price18K (priceTable id 2680 83.5))
           \<le> per10Grams (price22K (priceTable id 2680 83.5))"
    using purity_prices_ordered [of id 2680 "83.5", OF m] by simp
  have k24: "per10Grams (price24K (priceTable id 2680 83.5)) = 71946.89"
    by (simp add: priceTable_def Let_def toFixed_def toFixedAbs_def)
  have k22: "per10Grams (price22K (priceTable id 2680 83.5)) = 65951.31"
    by (simp add: priceTable_def Let_def toFixed_def toFixedAbs_def)
  have k18: "per10Grams (price18K (priceTable id 2680 83.5)) = 53960.17"
    by (simp add: priceTable_def Let_def toFixed_def toFixedAbs_def)
  show ?thesis using ordered k24 k22 k18 by simp
qed


section \<open>Properties of the media transcription handler\<close>

text \<open>
  C6. For a request that is not a preflight and whose body can be read, the handler
  answers with status 500 and an error body (\<open>success\<close> false) whenever the AI gateway
  key, the storage URL or the service key is absent, or the storage download fails, or
  the gateway answers with a status that is not ok, or the completion text is empty, or
  the database reports an error for the update. The error body has no transcript field,
  so in the last case the transcript that was produced is not returned.
\<close>

theorem transcribe_failures:
  assumes "method \<noteq> OPTIONS"
    and "falsy (LOVABLE_API_KEY e) \<or> falsy (SUPABASE_URL e) \<or> falsy (SUPABASE_SERVICE_ROLE_KEY e)
         \<or> downloadError download \<noteq> None \<or> fileData download = None
         \<or> (\<exists>st c. gateway (transcribePayload r download) = Gateway_response st c \<and> \<not> ok st)
         \<or> (\<exists>st c. gateway (transcribePayload r download) = Gateway_response st c \<and> falsy c)
         \<or> updateError \<noteq> None"
  shows "status (fst (transcribe_media_handler e method (Some r) download gateway updateError rows))
           = 500
       \<and> success (body (fst (transcribe_media_handler e method (Some r) download gateway
                                updateError rows))) = False
       \<and> (\<exists>err. body (fst (transcribe_media_handler e method (Some r) download gateway
                                updateError rows)) = Failure err)"
proof (cases "transcribe e (Some r) download gateway updateError rows")
  case (Inl err)
  then show ?thesis using assms(1) by (simp add: transcribe_media_handler_def)
next
  case (Inr res)
  then have False using assms(2)
    by (auto simp: transcribe_def Let_def split: option.splits if_splits gateway_result.splits)
  then show ?thesis ..
qed

text \<open>
  A transcript was produced and the update fails; the storage URL is missing; the gateway
  answers 503.
\<close>

theorem transcribe_failures_witness:
  "fst (transcribe_media_handler env0 POST (Some treq0) download0
        (gateway_completion 200 (Some (ascii ''SUMMARY: a talk''))) (Some ''row locked'') rows0)
      = \<lparr> status = 500, body = Failure (Failed_to_save_transcript ''row locked'') \<rparr>
   \<and> status (fst (transcribe_media_handler (env0\<lparr> SUPABASE_URL := None \<rparr>) POST (Some treq0)
        download0 (gateway_completion 200 (Some (ascii ''SUMMARY: a talk''))) None rows0)) = 500
   \<and> status (fst (transcribe_media_handler env0 POST (Some treq0) download0
        (gateway_completion 503 None) None rows0)) = 500"
proof -
  have "fst (transcribe_media_handler env0 POST (Some treq0) download0
        (gateway_completion 200 (Some (ascii ''SUMMARY: a talk''))) (Some ''row locked'') rows0)
      = \<lparr> status = 500, body = Failure (Failed_to_save_transcript ''row locked'') \<rparr>"
    by (simp add: transcribe_media_handler_def transcribe_def env0_def download0_def falsy_def
        ok_def gateway_completion_def ascii_def Let_def)
  then show ?thesis
    using transcribe_failures [of POST env0 download0
        "gateway_completion 200 (Some (ascii ''SUMMARY: a talk''))" treq0 "Some ''row locked''" rows0]
      transcribe_failures [of POST "env0\<lparr> SUPABASE_URL := None \<rparr>" download0
        "gateway_completion 200 (Some (ascii ''SUMMARY: a talk''))" treq0 None rows0]
      transcribe_failures [of POST env0 download0 "gateway_completion 503 None" treq0 None rows0]
    by (simp add: falsy_def ok_def gateway_completion_def)
qed

lemma transcribe_Inr:
  assumes "transcribe e request download gateway updateError rows = Inr (x, rows')"
  shows "\<exists>r st t. request = Some r
       \<and> gateway (transcribePayload r download) = Gateway_response st (Some t)
       \<and> x = \<lparr> transcript = take 500 t @ (if length t > 500 then ascii ''...'' else []),
                 fullLength = length t \<rparr>
       \<and> rows' = update_content t (filePath r) (userId r) rows"
  using assms
  by (auto simp: transcribe_def Let_def falsy_def
      split: if_splits option.splits gateway_result.splits)

lemma transcribe_handler_Success:
  assumes "body (fst (transcribe_media_handler e method request download gateway updateError rows))
             = Success x"
  shows "transcribe e request download gateway updateError rows
           = Inr (x, snd (transcribe_media_handler e method request download gateway
                            updateError rows))"
  using assms
  by (auto simp: transcribe_media_handler_def split: if_splits sum.splits)

text \<open>
  C9, as amended. On success the gateway has produced a transcript \<open>t\<close>; the response's
  \<open>transcript\<close> field is the first 500 code units of \<open>t\<close>, with \<open>...\<close> appended exactly when
  \<open>t\<close> is longer than 500, and \<open>fullLength\<close> is the length of \<open>t\<close>. A transcript of at most
  500 code units is therefore returned whole; of a longer one the response carries the
  first 500 code units and the marker only. The table is left with \<open>t\<close> as the content of
  the rows that match the file path and the user id.
\<close>

theorem transcribe_success_response:
  assumes "body (fst (transcribe_media_handler e method request download gateway updateError rows))
             = Success x"
  shows "\<exists>r st t. request = Some r
       \<and> gateway (transcribePayload r download) = Gateway_response st (Some t)
       \<and> transcript x = take 500 t @ (if length t > 500 then ascii ''...'' else [])
       \<and> fullLength x = length t
       \<and> (length t \<le> 500 \<longrightarrow> transcript x = t)
       \<and> (length t > 500 \<longrightarrow> length (transcript x) = 503 \<and> drop 500 (transcript x) = ascii ''...'')
       \<and> snd (transcribe_media_handler e method request download gateway updateError rows)
           = update_content t (filePath r) (userId r) rows"
proof -
  obtain r st t where r: "request = Some r"
    and g: "gateway (transcribePayload r download) = Gateway_response st (Some t)"
    and x: "x = \<lparr> transcript = take 500 t @ (if length t > 500 then ascii ''...'' else []),
                 fullLength = length t \<rparr>"
    and u: "snd (transcribe_media_handler e method request download gateway updateError rows)
           = update_content t (filePath r) (userId r) rows"
    using transcribe_Inr [OF transcribe_handler_Success [OF assms]] by blast
  have short: "length t \<le> 500 \<longrightarrow> transcript x = t"
    by (simp add: x)
  have long: "length t > 500 \<longrightarrow> length (transcript x) = 503 \<and> drop 500 (transcript x) = ascii ''...''"
    by (simp add: x ascii_def)
  show ?thesis using r g u short long by (simp add: x)
qed

text \<open>A transcript of 501 code units: the response has 500 of them, the table has all.\<close>

theorem transcribe_success_response_witness:
  "body (fst (transcribe_media_handler env0 POST (Some treq0) download0
        (gateway_completion 200 (Some (replicate 501 120))) None rows0))
     = Success \<lparr> transcript = replicate 500 120 @ ascii ''...'', fullLength = 501 \<rparr>
   \<and> snd (transcribe_media_handler env0 POST (Some treq0) download0
        (gateway_completion 200 (Some (replicate 501 120))) None rows0)
     = [\<lparr> row_file_path = ascii ''u1/17-talk.mov'', row_user_id = ascii ''u1'',
              row_content = Some (replicate 501 120) \<rparr>,
            \<lparr> row_file_path = ascii ''u2/3-notes.txt'', row_user_id = ascii ''u2'',
              row_content = Some (ascii ''notes'') \<rparr>]"
proof -
  have b: "body (fst (transcribe_media_handler env0 POST (Some treq0) download0
        (gateway_completion 200 (Some (replicate 501 120))) None rows0))
     = Success \<lparr> transcript = replicate 500 120 @ ascii ''...'', fullLength = 501 \<rparr>"
    by (simp add: transcribe_media_handler_def transcribe_def env0_def download0_def falsy_def
        ok_def gateway_completion_def Let_def)
  from transcribe_success_response [OF b]
  have "snd (transcribe_media_handler env0 POST (Some treq0) download0
        (gateway_completion 200 (Some (replicate 501 120))) None rows0)
     = update_content (replicate 501 120) (filePath treq0) (userId treq0) rows0"
    by (auto simp: gateway_completion_def)
  then show ?thesis using b
    by (simp add: update_content_def treq0_def rows0_def ascii_def)
qed

text \<open>
  C9, as stated, fails: the gateway produces the transcript \<open>hi\<close>, and the success
  response carries \<open>hi\<close>, the full transcript.
\<close>

theorem short_transcript_returned_whole:
  "gateway_completion 200 (Some (ascii ''hi'')) (transcribePayload treq0 download0)
     = Gateway_response 200 (Some (ascii ''hi''))
   \<and> body (fst (transcribe_media_handler env0 POST (Some treq0) download0
        (gateway_completion 200 (Some (ascii ''hi''))) None rows0))
     = Success \<lparr> transcript = ascii ''hi'', fullLength = 2 \<rparr>"
  by (simp add: transcribe_media_handler_def transcribe_def env0_def download0_def falsy_def
        ok_def gateway_completion_def ascii_def Let_def)

end
